theory Spec2Isabelle
  imports Main "HOL-Library.AList"
begin

section \<open>JavaScript strings and the library functions the plugin calls\<close>

text \<open>
  A JavaScript string is modelled by the bytes of its UTF-8 encoding (\<open>string\<close>, a list of
  8-bit characters). The strings the plugin handles are well formed (no lone surrogates), so
  nothing is lost; ASCII text is one byte per character.
\<close>

text \<open>\<^verbatim>\<open>String.prototype.split(sep)\<close> for a one-character separator: the empty string splits
  into one empty piece, and a separator at either end gives an empty piece there.\<close>

fun split_str :: "char \<Rightarrow> string \<Rightarrow> string list" where
  "split_str d [] = [[]]"
| "split_str d (c # s) =
     (if c = d then [] # split_str d s
      else (case split_str d s of [] \<Rightarrow> [[c]] | x # xs \<Rightarrow> (c # x) # xs))"

text \<open>\<^verbatim>\<open>Array.prototype.join(sep)\<close> on strings.\<close>

fun join_str :: "char \<Rightarrow> string list \<Rightarrow> string" where
  "join_str d [] = []"
| "join_str d [x] = x"
| "join_str d (x # y # r) = x @ d # join_str d (y # r)"

text \<open>\<^verbatim>\<open>Boolean(s)\<close> on a string: every string but the empty one is truthy.\<close>

definition Boolean :: "string \<Rightarrow> bool" where
  "Boolean s = (s \<noteq> [])"

text \<open>\<^verbatim>\<open>String.prototype.toLowerCase\<close>. The plugin applies it to the \<open>hostname\<close> of a URL
  object only, which is ASCII (a serialised host); there it maps A-Z to a-z and leaves every
  other character alone.\<close>

definition lower_char :: "char \<Rightarrow> char" where
  "lower_char c = (let n = of_char c :: nat in if 65 \<le> n \<and> n \<le> 90 then char_of (n + 32) else c)"

definition toLowerCase :: "string \<Rightarrow> string" where
  "toLowerCase s = map lower_char s"

subsection \<open>decodeURIComponent\<close>

text \<open>
  ECMAScript's \<open>Decode\<close> with an empty reserved set. A character other than \<open>%\<close> is copied.
  A \<open>%\<close> must be followed by two hexadecimal digits, which give an octet. An octet below 128
  is that character; otherwise its leading one bits give the length \<open>n\<close> of a UTF-8 sequence
  (\<open>n = 1\<close> or \<open>n > 4\<close> is an error), the next \<open>n - 1\<close> items must be escaped octets too, and the
  octets together must be the UTF-8 encoding of a code point. Every failure is a
  \<open>URIError\<close>: the value \<open>None\<close>.
\<close>

definition hexval :: "char \<Rightarrow> nat option" where
  "hexval c =
     (let n = of_char c :: nat in
      if 48 \<le> n \<and> n \<le> 57 then Some (n - 48)
      else if 65 \<le> n \<and> n \<le> 70 then Some (n - 55)
      else if 97 \<le> n \<and> n \<le> 102 then Some (n - 87)
      else None)"

datatype token = Unit char | Octet nat

text \<open>First pass: every \<open>%\<close> with its two hexadecimal digits becomes an octet.\<close>

fun escapes :: "string \<Rightarrow> token list option" where
  "escapes [] = Some []"
| "escapes (c # s) =
     (if c = CHR ''%'' then
        (case s of
           h # l # r \<Rightarrow>
             (case hexval h of
                None \<Rightarrow> None
              | Some a \<Rightarrow>
                  (case hexval l of
                     None \<Rightarrow> None
                   | Some b \<Rightarrow> map_option ((#) (Octet (16 * a + b))) (escapes r)))
         | _ \<Rightarrow> None)
      else map_option ((#) (Unit c)) (escapes s))"

fun octet_of :: "token \<Rightarrow> nat option" where
  "octet_of (Octet b) = Some b"
| "octet_of (Unit c) = None"

definition utf8_length :: "nat \<Rightarrow> nat" where
  "utf8_length b =
     (if b < 128 then 0 else if b < 192 then 1 else if b < 224 then 2
      else if b < 240 then 3 else if b < 248 then 4 else 5)"

definition continuation :: "nat \<Rightarrow> bool" where
  "continuation b = (128 \<le> b \<and> b \<le> 191)"

text \<open>The well-formed UTF-8 sequences of two to four octets (no overlong form, no
  surrogate, nothing above U+10FFFF).\<close>

fun valid_utf8 :: "nat list \<Rightarrow> bool" where
  "valid_utf8 [a, b] = (194 \<le> a \<and> a \<le> 223 \<and> continuation b)"
| "valid_utf8 [a, b, c] =
     (224 \<le> a \<and> a \<le> 239 \<and> continuation c \<and>
      (if a = 224 then 160 \<le> b \<and> b \<le> 191
       else if a = 237 then 128 \<le> b \<and> b \<le> 159
       else continuation b))"
| "valid_utf8 [a, b, c, d] =
     (240 \<le> a \<and> a \<le> 244 \<and> continuation c \<and> continuation d \<and>
      (if a = 240 then 144 \<le> b \<and> b \<le> 191
       else if a = 244 then 128 \<le> b \<and> b \<le> 143
       else continuation b))"
| "valid_utf8 _ = False"

text \<open>Second pass: the octets are put together.\<close>

fun decode_tokens :: "token list \<Rightarrow> string option" where
  "decode_tokens [] = Some []"
| "decode_tokens (Unit c # ts) = map_option ((#) c) (decode_tokens ts)"
| "decode_tokens (Octet b # ts) =
     (if b < 128 then map_option ((#) (char_of b)) (decode_tokens ts)
      else
        let n = utf8_length b in
        if n = 1 \<or> 4 < n then None
        else
          (case those (map octet_of (take (n - 1) ts)) of
             None \<Rightarrow> None
           | Some bs \<Rightarrow>
               if length bs = n - 1 \<and> valid_utf8 (b # bs)
               then map_option ((@) (map char_of (b # bs))) (decode_tokens (drop (n - 1) ts))
               else None))"

definition decodeURIComponent :: "string \<Rightarrow> string option" where
  "decodeURIComponent s = (case escapes s of None \<Rightarrow> None | Some ts \<Rightarrow> decode_tokens ts)"

section \<open>The URL target parser\<close>

text \<open>The part of a sync target that the parser produces
  (\<^verbatim>\<open>Omit<NoteSyncTarget, 'repoUrl'>\<close>), and the target itself.\<close>

record GitHubFile =
  owner :: string
  repo :: string
  branch :: string
  filePath :: string

record NoteSyncTarget = GitHubFile +
  repoUrl :: string

text \<open>The two properties the parser reads from the platform's \<^verbatim>\<open>URL\<close> object.\<close>

record URL =
  hostname :: string
  pathname :: string

text \<open>
  \<^verbatim>\<open>parseGitHubFileUrl\<close>. The constructor \<^verbatim>\<open>new URL(url)\<close> belongs to the platform (the
  WHATWG URL parser) and is a parameter: \<open>new_URL url\<close> is \<open>None\<close> when the constructor
  throws. The whole body stands in a \<^verbatim>\<open>try\<close> whose handler returns \<^verbatim>\<open>null\<close>, so a
  \<open>URIError\<close> of \<open>decodeURIComponent\<close> gives \<open>None\<close> as well.
\<close>

definition parseGitHubFileUrl :: "(string \<Rightarrow> URL option) \<Rightarrow> string \<Rightarrow> GitHubFile option" where
  "parseGitHubFileUrl new_URL url =
     (case new_URL url of
        None \<Rightarrow> None
      | Some parsedUrl \<Rightarrow>
          let host = toLowerCase (hostname parsedUrl) in
          (case those (map decodeURIComponent
                         (filter Boolean (split_str CHR ''/'' (pathname parsedUrl)))) of
             None \<Rightarrow> None
           | Some parts \<Rightarrow>
               if host = ''github.com'' then
                 (if length parts < 5 then None
                  else if parts ! 2 \<noteq> ''blob'' then None
                  else Some \<lparr>owner = parts ! 0, repo = parts ! 1, branch = parts ! 3,
                              filePath = join_str CHR ''/'' (drop 4 parts)\<rparr>)
               else if host = ''raw.githubusercontent.com'' then
                 (if length parts < 4 then None
                  else Some \<lparr>owner = parts ! 0, repo = parts ! 1, branch = parts ! 2,
                              filePath = join_str CHR ''/'' (drop 3 parts)\<rparr>)
               else None))"

section \<open>More of the JavaScript library\<close>

subsection \<open>String.prototype.trim\<close>

text \<open>The white space and line terminators of ECMAScript, each as its UTF-8 bytes: TAB, LF,
  VT, FF, CR, SP, U+00A0, U+1680, U+2000 to U+200A, U+2028, U+2029, U+202F, U+205F, U+3000
  and U+FEFF.\<close>

definition js_whitespace :: "string list" where
  "js_whitespace = map (map char_of)
     [[9], [10], [11], [12], [13], [32], [194, 160], [225, 154, 128],
      [226, 128, 128], [226, 128, 129], [226, 128, 130], [226, 128, 131], [226, 128, 132],
      [226, 128, 133], [226, 128, 134], [226, 128, 135], [226, 128, 136], [226, 128, 137],
      [226, 128, 138], [226, 128, 168], [226, 128, 169], [226, 128, 175], [226, 129, 159],
      [227, 128, 128], [239, 187, 191 :: nat]]"

text \<open>\<open>strip ws s\<close> removes from the front of \<open>s\<close> every leading member of \<open>ws\<close> (sequences of
  one to three bytes).\<close>

fun strip :: "string list \<Rightarrow> string \<Rightarrow> string" where
  "strip ws (a # b # c # s) =
     (if [a] \<in> set ws then strip ws (b # c # s)
      else if [a, b] \<in> set ws then strip ws (c # s)
      else if [a, b, c] \<in> set ws then strip ws s
      else a # b # c # s)"
| "strip ws [a, b] =
     (if [a] \<in> set ws then strip ws [b] else if [a, b] \<in> set ws then [] else [a, b])"
| "strip ws [a] = (if [a] \<in> set ws then [] else [a])"
| "strip ws [] = []"

definition trim :: "string \<Rightarrow> string" where
  "trim s = rev (strip (map rev js_whitespace) (rev (strip js_whitespace s)))"

subsection \<open>encodeURIComponent, base64, numbers as text, JSON.stringify\<close>

definition unreserved :: "char \<Rightarrow> bool" where
  "unreserved c =
     (let n = of_char c :: nat in
      (48 \<le> n \<and> n \<le> 57) \<or> (65 \<le> n \<and> n \<le> 90) \<or> (97 \<le> n \<and> n \<le> 122) \<or>
      c \<in> set (''-_.!~*()'' @ [CHR 0x27]))"

definition hex_digit :: "nat \<Rightarrow> char" where
  "hex_digit n = ''0123456789ABCDEF'' ! (n mod 16)"

definition encodeURIComponent :: "string \<Rightarrow> string" where
  "encodeURIComponent s =
     concat (map (\<lambda>c. if unreserved c then [c]
                       else [CHR ''%'', hex_digit (of_char c div 16), hex_digit (of_char c mod 16)]) s)"

text \<open>\<^verbatim>\<open>encodeURIComponentPath\<close>: every segment is encoded on its own, the slashes stay.\<close>

definition encodeURIComponentPath :: "string \<Rightarrow> string" where
  "encodeURIComponentPath p = join_str CHR ''/'' (map encodeURIComponent (split_str CHR ''/'' p))"

definition base64_char :: "nat \<Rightarrow> char" where
  "base64_char n =
     ''ABCDEFGHIJKLMNOPQRSTUVWXYZabcdefghijklmnopqrstuvwxyz0123456789+/'' ! (n mod 64)"

text \<open>\<^verbatim>\<open>Buffer.from(content, 'utf8').toString('base64')\<close>: three bytes give four characters,
  the last group is padded.\<close>

fun base64 :: "string \<Rightarrow> string" where
  "base64 [] = []"
| "base64 [a] =
     (let x = of_char a :: nat in
      [base64_char (x div 4), base64_char (x mod 4 * 16), CHR ''='', CHR ''=''])"
| "base64 [a, b] =
     (let x = of_char a * 256 + of_char b :: nat in
      [base64_char (x div 1024), base64_char (x div 16), base64_char (x mod 16 * 4), CHR ''=''])"
| "base64 (a # b # c # s) =
     (let x = (of_char a * 256 + of_char b) * 256 + of_char c :: nat in
      [base64_char (x div 262144), base64_char (x div 4096), base64_char (x div 64),
       base64_char x] @ base64 s)"

text \<open>A counter in a template string: its decimal digits.\<close>

fun decimal :: "nat \<Rightarrow> string" where
  "decimal n = (if n < 10 then [char_of (48 + n)] else decimal (n div 10) @ [char_of (48 + n mod 10)])"

text \<open>
  \<^verbatim>\<open>JSON.stringify\<close> of an object whose properties are strings or \<^verbatim>\<open>undefined\<close>: a property
  that is \<^verbatim>\<open>undefined\<close> is left out. The JSON text is represented by the list of its members.
\<close>

definition JSON_stringify :: "(string \<times> string option) list \<Rightarrow> (string \<times> string) list" where
  "JSON_stringify obj = List.map_filter (\<lambda>(k, v). map_option (Pair k) v) obj"

section \<open>The plugin's data\<close>

text \<open>
  \<^verbatim>\<open>noteTargets: Record<string, NoteSyncTarget>\<close> is a plain object. Its own properties that
  hold a target are an association list in the order of \<^verbatim>\<open>Object.keys\<close>: assigning to a
  key that is present replaces its value in place, assigning to a new key appends it
  (\<open>AList.update\<close>), \<^verbatim>\<open>delete\<close> removes it (\<open>AList.delete\<close>). (A key that is a canonical
  array index, which \<^verbatim>\<open>Object.keys\<close> lists first, is outside the model.) An entry, being an
  object, is truthy. \<open>syncinterval\<close> is read by \<^verbatim>\<open>onload\<close> only, which is not modelled.
\<close>

record GHSyncSettings =
  syncinterval :: int
  isSyncOnLoad :: bool
  checkStatusOnLoad :: bool
  githubToken :: string
  noteTargets :: "(string \<times> NoteSyncTarget) list"

text \<open>
  A plain object inherits the members of \<^verbatim>\<open>Object.prototype\<close>: a read \<^verbatim>\<open>noteTargets[k]\<close> of
  a key that is no own property finds them. Each is a function, but for \<^verbatim>\<open>__proto__\<close>, an
  accessor whose getter answers the prototype of the object and whose setter replaces it.
\<close>

definition Object_prototype_members :: "string list" where
  "Object_prototype_members =
     [''constructor'', ''__defineGetter__'', ''__defineSetter__'', ''hasOwnProperty'',
      ''__lookupGetter__'', ''__lookupSetter__'', ''isPrototypeOf'', ''propertyIsEnumerable'',
      ''toString'', ''valueOf'', ''__proto__'', ''toLocaleString'']"

text \<open>What a read of \<^verbatim>\<open>noteTargets[k]\<close> can give besides \<^verbatim>\<open>undefined\<close>: a target, or the
  member of \<^verbatim>\<open>Object.prototype\<close> of the given name (for \<^verbatim>\<open>__proto__\<close>, the object
  \<^verbatim>\<open>Object.prototype\<close> itself). All of them are objects, hence truthy.\<close>

datatype jsvalue = Target NoteSyncTarget | Member string

text \<open>
  The plugin object: its settings and what \<^verbatim>\<open>saveData\<close> received last. The handlers can
  take the object \<^verbatim>\<open>noteTargets\<close> out of its declared type, and two more fields record that:
  \<open>others\<close> are its own properties that hold a member of \<^verbatim>\<open>Object.prototype\<close> (by the
  member's name) instead of a target, and \<open>replaced_prototype\<close> is the value that the setter of
  \<^verbatim>\<open>__proto__\<close> has installed as its prototype, if any. \<open>noteTargets (settings p)\<close> is always
  the list of the own properties that hold targets; the sync engine below is modelled for
  these. Every prototype that can be installed here inherits from \<^verbatim>\<open>Object.prototype\<close>, so
  its members stay visible; what else a replaced prototype makes visible is not followed.
\<close>

record plugin =
  settings :: GHSyncSettings
  saved :: "GHSyncSettings option"
  others :: "(string \<times> string) list"
  replaced_prototype :: "jsvalue option"

record TFile =
  path :: string
  name :: string
  basename :: string
  extension :: string

datatype TAbstractFile = File TFile | Folder string

text \<open>A thrown value \<open>e\<close>: a falsy one, or an object with its \<^verbatim>\<open>status\<close> when that is a number.\<close>

datatype thrown = Thrown_falsy | Thrown_object "int option"

record request =
  req_url :: string
  req_method :: string
  req_body :: "(string \<times> string) list option"
  req_headers :: "(string \<times> string) list"

text \<open>What the plugin reads of a response: \<^verbatim>\<open>existing.json.sha\<close>, a string or \<^verbatim>\<open>undefined\<close>;
  or reading \<^verbatim>\<open>json\<close> fails (no JSON, or \<^verbatim>\<open>null\<close>), which throws an error without status.\<close>

datatype response = Json_sha "string option" | Json_unreadable

text \<open>What a run does to the outside, in order: notices (with their timeout), console
  errors, and requests with their results.\<close>

datatype event =
  Notice string "nat option"
| Console_error string thrown
| Http request "thrown + response"

text \<open>The host: the vault, the HTTP client and the clock, over a world \<open>'w\<close> that a request
  may change. \<open>Inl\<close> is a throw (a rejected promise).\<close>

record 'w host =
  getAbstractFileByPath :: "string \<Rightarrow> 'w \<Rightarrow> TAbstractFile option"
  vault_read :: "TFile \<Rightarrow> 'w \<Rightarrow> thrown + string"
  requestUrl :: "request \<Rightarrow> 'w \<Rightarrow> (thrown + response) \<times> 'w"
  toISOString_now :: "'w \<Rightarrow> string"

section \<open>The target registry\<close>

definition saveSettings :: "plugin \<Rightarrow> plugin" where
  "saveSettings p = p\<lparr>saved := Some (settings p)\<rparr>"

definition set_noteTargets :: "(string \<times> NoteSyncTarget) list \<Rightarrow> plugin \<Rightarrow> plugin" where
  "set_noteTargets r p = p\<lparr>settings := (settings p)\<lparr>noteTargets := r\<rparr>\<rparr>"

text \<open>The read \<^verbatim>\<open>noteTargets[k]\<close>: an own property, else what the prototype gives; \<open>None\<close> is
  \<^verbatim>\<open>undefined\<close>.\<close>

definition noteTargets_get :: "plugin \<Rightarrow> string \<Rightarrow> jsvalue option" where
  "noteTargets_get p k =
     (case map_of (noteTargets (settings p)) k of
        Some t \<Rightarrow> Some (Target t)
      | None \<Rightarrow>
          (case map_of (others p) k of
             Some m \<Rightarrow> Some (Member m)
           | None \<Rightarrow>
               if k = ''__proto__'' then
                 (case replaced_prototype p of
                    Some v \<Rightarrow> Some v
                  | None \<Rightarrow> Some (Member k))
               else if k \<in> set Object_prototype_members then Some (Member k)
               else None))"

text \<open>\<^verbatim>\<open>delete noteTargets[k]\<close> removes an own property and nothing else.\<close>

definition noteTargets_delete :: "string \<Rightarrow> plugin \<Rightarrow> plugin" where
  "noteTargets_delete k p =
     (set_noteTargets (AList.delete k (noteTargets (settings p))) p)
       \<lparr>others := AList.delete k (others p)\<rparr>"

text \<open>The assignment \<^verbatim>\<open>noteTargets[k] = v\<close>. At the key \<^verbatim>\<open>__proto__\<close>, unless it is an own
  property, the inherited setter runs: the prototype becomes \<open>v\<close> and no property is added.
  Otherwise \<open>k\<close> becomes (or stays) an own property with the value \<open>v\<close>.\<close>

definition noteTargets_set :: "string \<Rightarrow> jsvalue \<Rightarrow> plugin \<Rightarrow> plugin" where
  "noteTargets_set k v p =
     (if k = ''__proto__'' \<and> map_of (noteTargets (settings p)) k = None \<and>
         map_of (others p) k = None
      then p\<lparr>replaced_prototype := Some v\<rparr>
      else
        (case v of
           Target t \<Rightarrow>
             (set_noteTargets (AList.update k t (noteTargets (settings p))) p)
               \<lparr>others := AList.delete k (others p)\<rparr>
         | Member m \<Rightarrow>
             (set_noteTargets (AList.delete k (noteTargets (settings p))) p)
               \<lparr>others := AList.update k m (others p)\<rparr>))"

text \<open>The handler of the vault's \<^verbatim>\<open>rename\<close> event; \<open>file\<close> carries the new path. The test
  \<^verbatim>\<open>if (oldTarget)\<close> holds for whatever the read finds.\<close>

definition on_rename :: "TAbstractFile \<Rightarrow> string \<Rightarrow> plugin \<Rightarrow> plugin" where
  "on_rename file oldPath p =
     (case file of
        Folder d \<Rightarrow> p
      | File f \<Rightarrow>
          (case noteTargets_get p oldPath of
             None \<Rightarrow> p
           | Some oldTarget \<Rightarrow>
               saveSettings
                 (noteTargets_set (path f) oldTarget (noteTargets_delete oldPath p))))"

text \<open>The handler of the vault's \<^verbatim>\<open>delete\<close> event.\<close>

definition on_delete :: "TAbstractFile \<Rightarrow> plugin \<Rightarrow> plugin" where
  "on_delete file p =
     (case file of
        Folder d \<Rightarrow> p
      | File f \<Rightarrow>
          (case noteTargets_get p (path f) of
             None \<Rightarrow> p
           | Some t \<Rightarrow> saveSettings (noteTargets_delete (path f) p)))"

text \<open>\<^verbatim>\<open>setNoteTarget\<close>; the target \<^verbatim>\<open>null\<close> is \<open>None\<close>. (Its first test, a missing
  \<^verbatim>\<open>noteTargets\<close>, cannot hold for the record type.) It is called from the modal of a note
  with the extension \<open>md\<close> only, so its assignment makes an own property.\<close>

definition setNoteTarget :: "TFile \<Rightarrow> NoteSyncTarget option \<Rightarrow> plugin \<Rightarrow> plugin" where
  "setNoteTarget file target p =
     saveSettings
       (case target of
          Some t \<Rightarrow>
            (set_noteTargets (AList.update (path file) t (noteTargets (settings p))) p)
              \<lparr>others := AList.delete (path file) (others p)\<rparr>
        | None \<Rightarrow> noteTargets_delete (path file) p)"

section \<open>The sync engine\<close>

text \<open>Lines 199 to 214 of \<^verbatim>\<open>syncNoteWithGitHub\<close>: the read of the remote file's revision.
  \<open>Inr existingSha\<close> goes on to the write; \<open>Inl e\<close> is the \<^verbatim>\<open>return\<close> of the handler, for a
  caught \<open>e\<close> that is falsy or whose status is not 404.\<close>

definition existing_sha :: "thrown + response \<Rightarrow> thrown + string option" where
  "existing_sha got =
     (case (case got of
              Inl e \<Rightarrow> Inl e
            | Inr Json_unreadable \<Rightarrow> Inl (Thrown_object None)
            | Inr (Json_sha s) \<Rightarrow> Inr s) of
        Inr s \<Rightarrow> Inr s
      | Inl Thrown_falsy \<Rightarrow> Inl Thrown_falsy
      | Inl (Thrown_object status) \<Rightarrow>
          if status = Some 404 then Inr None else Inl (Thrown_object status))"

text \<open>The constants \<^verbatim>\<open>headers\<close> and \<^verbatim>\<open>apiUrl\<close>, the request of the read, the object
  \<^verbatim>\<open>body\<close> and the request of the write, as \<^verbatim>\<open>syncNoteWithGitHub\<close> builds them.\<close>

definition sync_headers :: "GHSyncSettings \<Rightarrow> (string \<times> string) list" where
  "sync_headers st =
     [(''Authorization'', ''token '' @ trim (githubToken st)),
      (''Accept'', ''application/vnd.github+json''),
      (''Content-Type'', ''application/json'')]"

definition sync_apiUrl :: "NoteSyncTarget \<Rightarrow> string" where
  "sync_apiUrl target =
     ''https://api.github.com/repos/'' @ owner target @ ''/'' @ repo target @ ''/contents/'' @
     encodeURIComponentPath (filePath target)"

definition get_request :: "GHSyncSettings \<Rightarrow> NoteSyncTarget \<Rightarrow> request" where
  "get_request st target =
     \<lparr>req_url = sync_apiUrl target @ ''?ref='' @ encodeURIComponent (branch target),
      req_method = ''GET'', req_body = None, req_headers = sync_headers st\<rparr>"

definition sync_body ::
  "NoteSyncTarget \<Rightarrow> TFile \<Rightarrow> string \<Rightarrow> string \<Rightarrow> string option \<Rightarrow> (string \<times> string option) list" where
  "sync_body target file encodedContent now existingSha =
     [(''message'', Some (''Update '' @ name file @ '' from Obsidian on '' @ now)),
      (''content'', Some encodedContent),
      (''branch'', Some (branch target)),
      (''sha'', existingSha)]"

definition put_request ::
  "GHSyncSettings \<Rightarrow> NoteSyncTarget \<Rightarrow> TFile \<Rightarrow> string \<Rightarrow> string \<Rightarrow> string option \<Rightarrow> request" where
  "put_request st target file encodedContent now existingSha =
     \<lparr>req_url = sync_apiUrl target, req_method = ''PUT'',
      req_body = Some (JSON_stringify (sync_body target file encodedContent now existingSha)),
      req_headers = sync_headers st\<rparr>"

text \<open>
  \<^verbatim>\<open>syncNoteWithGitHub\<close>. The result is \<open>Inr ()\<close> when the promise resolves and \<open>Inl e\<close> when
  it rejects with \<open>e\<close>; with it come the events of the call and the world after it. Only
  \<^verbatim>\<open>vault.read\<close> stands outside every \<^verbatim>\<open>try\<close>.
\<close>

definition syncNoteWithGitHub ::
  "'w host \<Rightarrow> GHSyncSettings \<Rightarrow> TFile \<Rightarrow> 'w \<Rightarrow> (thrown + unit) \<times> event list \<times> 'w" where
  "syncNoteWithGitHub h st file w =
     (case map_of (noteTargets st) (path file) of
        None \<Rightarrow> (Inr (), [Notice ''No GitHub sync target set for this note.'' None], w)
      | Some target \<Rightarrow>
          if githubToken st = [] \<or> length (trim (githubToken st)) = 0 then
            (Inr (),
             [Notice ''Set a GitHub personal access token in the plugin settings before syncing notes.''
                None], w)
          else
            (case vault_read h file w of
               Inl e \<Rightarrow> (Inl e, [], w)
             | Inr content \<Rightarrow>
                 let encodedContent = base64 content;
                     get = get_request st target;
                     (got, w1) = requestUrl h get w
                 in
                 (case existing_sha got of
                    Inl e \<Rightarrow>
                      (Inr (),
                       [Http get got,
                        Notice ''Unable to fetch current GitHub file contents.'' (Some 8000),
                        Console_error ''Failed to load GitHub file before sync'' e], w1)
                  | Inr existingSha \<Rightarrow>
                      let put =
                            put_request st target file encodedContent (toISOString_now h w1)
                              existingSha;
                          (res, w2) = requestUrl h put w1
                      in
                      (case res of
                         Inr r \<Rightarrow>
                           (Inr (),
                            [Http get got, Http put res,
                             Notice (''Synced '' @ [CHR 0x22] @ basename file @ [CHR 0x22] @
                                     '' to GitHub'') None], w2)
                       | Inl e \<Rightarrow>
                           (Inr (),
                            [Http get got, Http put res,
                             Notice ''Failed to sync note to GitHub. See console for details.''
                               (Some 8000),
                             Console_error ''GitHub sync failed'' e], w2)))))"

text \<open>The loop of \<^verbatim>\<open>SyncAllTargetedNotes\<close> over the keys, with its two counters
  (\<open>notePath\<close> is the loop's \<^verbatim>\<open>filePath\<close>).\<close>

fun sync_each ::
  "'w host \<Rightarrow> GHSyncSettings \<Rightarrow> string list \<Rightarrow> nat \<Rightarrow> nat \<Rightarrow> 'w \<Rightarrow> (nat \<times> nat) \<times> event list \<times> 'w" where
  "sync_each h st [] successCount failureCount w = ((successCount, failureCount), [], w)"
| "sync_each h st (notePath # rest) successCount failureCount w =
     (case getAbstractFileByPath h notePath w of
        Some (File file) \<Rightarrow>
          (case syncNoteWithGitHub h st file w of
             (Inr u, evs, w1) \<Rightarrow>
               (case sync_each h st rest (Suc successCount) failureCount w1 of
                  (counts, evs', w2) \<Rightarrow> (counts, evs @ evs', w2))
           | (Inl e, evs, w1) \<Rightarrow>
               (case sync_each h st rest successCount (Suc failureCount) w1 of
                  (counts, evs', w2) \<Rightarrow>
                    (counts,
                     evs @ Console_error (''Failed to sync '' @ notePath @ '':'') e # evs', w2)))
      | _ \<Rightarrow> sync_each h st rest successCount (Suc failureCount) w)"

definition SyncAllTargetedNotes :: "'w host \<Rightarrow> GHSyncSettings \<Rightarrow> 'w \<Rightarrow> event list \<times> 'w" where
  "SyncAllTargetedNotes h st w =
     (let targetedFiles = map fst (noteTargets st) in
      if length targetedFiles = 0 then
        ([Notice ''No files with GitHub sync targets configured.'' None], w)
      else
        (case sync_each h st targetedFiles 0 0 w of
           ((successCount, failureCount), evs, w') \<Rightarrow>
             (Notice (''Syncing '' @ decimal (length targetedFiles) @
                      '' targeted file(s) to GitHub'') None
              # evs @
              [Notice (''GitHub Sync complete: '' @ decimal successCount @ '' succeeded, '' @
                       decimal failureCount @ '' failed'') None], w')))"

text \<open>The texts of the notices of a run, and its requests.\<close>

definition notices :: "event list \<Rightarrow> string list" where
  "notices evs = List.map_filter (\<lambda>e. case e of Notice m t \<Rightarrow> Some m | _ \<Rightarrow> None) evs"

definition requests :: "event list \<Rightarrow> request list" where
  "requests evs = List.map_filter (\<lambda>e. case e of Http r x \<Rightarrow> Some r | _ \<Rightarrow> None) evs"

text \<open>A member of the JSON body of a request, if the request has a body with that member.\<close>

definition body_field :: "request \<Rightarrow> string \<Rightarrow> string option" where
  "body_field r k = (case req_body r of None \<Rightarrow> None | Some b \<Rightarrow> map_of b k)"

section \<open>Sample data\<close>

definition target_a :: NoteSyncTarget where
  "target_a =
     \<lparr>owner = ''alice'', repo = ''notes'', branch = ''main'', filePath = ''docs/page.md'',
      repoUrl = ''https://github.com/alice/notes/blob/main/docs/page.md''\<rparr>"

definition target_b :: NoteSyncTarget where
  "target_b =
     \<lparr>owner = ''bob'', repo = ''wiki'', branch = ''main'', filePath = ''b.md'',
      repoUrl = ''https://raw.githubusercontent.com/bob/wiki/main/b.md''\<rparr>"

definition file_a :: TFile where
  "file_a = \<lparr>path = ''A.md'', name = ''A.md'', basename = ''A'', extension = ''md''\<rparr>"

definition file_b :: TFile where
  "file_b = \<lparr>path = ''B.md'', name = ''B.md'', basename = ''B'', extension = ''md''\<rparr>"

definition file_c :: TFile where
  "file_c = \<lparr>path = ''C.md'', name = ''C.md'', basename = ''C'', extension = ''md''\<rparr>"

text \<open>A vault file without extension, named \<^verbatim>\<open>__proto__\<close>.\<close>

definition file_proto :: TFile where
  "file_proto =
     \<lparr>path = ''__proto__'', name = ''__proto__'', basename = ''__proto__'', extension = []\<rparr>"

definition settings_ab :: GHSyncSettings where
  "settings_ab =
     \<lparr>syncinterval = 0, isSyncOnLoad = False, checkStatusOnLoad = True, githubToken = ''ghp_x'',
      noteTargets = [(''A.md'', target_a), (''B.md'', target_b)]\<rparr>"

definition plugin_ab :: plugin where
  "plugin_ab =
     \<lparr>settings = settings_ab, saved = None, others = [], replaced_prototype = None\<rparr>"

text \<open>What the platform's \<^verbatim>\<open>URL\<close> constructor returns for the URLs of the examples below: the
  host name (lower case for \<^verbatim>\<open>https\<close>, as written for a scheme that is not special) and the
  path. A string that is not listed stands for one the constructor rejects.\<close>

definition new_URL_sample :: "string \<Rightarrow> URL option" where
  "new_URL_sample =
     [''https://github.com/alice/notes/blob/main/docs/page.md'' \<mapsto>
        \<lparr>hostname = ''github.com'', pathname = ''/alice/notes/blob/main/docs/page.md''\<rparr>,
      ''git://GitHub.com/alice/notes/blob/main/docs/page.md'' \<mapsto>
        \<lparr>hostname = ''GitHub.com'', pathname = ''/alice/notes/blob/main/docs/page.md''\<rparr>,
      ''https://raw.githubusercontent.com/bob/wiki/main/b.md'' \<mapsto>
        \<lparr>hostname = ''raw.githubusercontent.com'', pathname = ''/bob/wiki/main/b.md''\<rparr>,
      ''https://github.com/a/b/blob/main/%FF.md'' \<mapsto>
        \<lparr>hostname = ''github.com'', pathname = ''/a/b/blob/main/%FF.md''\<rparr>,
      ''https://gitlab.com/alice/notes/blob/main/docs/page.md'' \<mapsto>
        \<lparr>hostname = ''gitlab.com'', pathname = ''/alice/notes/blob/main/docs/page.md''\<rparr>,
      ''https://github.com/alice/notes/tree/main/docs'' \<mapsto>
        \<lparr>hostname = ''github.com'', pathname = ''/alice/notes/tree/main/docs''\<rparr>,
      ''https://github.com/alice/notes'' \<mapsto>
        \<lparr>hostname = ''github.com'', pathname = ''/alice/notes''\<rparr>,
      ''https://raw.githubusercontent.com/bob/wiki/main'' \<mapsto>
        \<lparr>hostname = ''raw.githubusercontent.com'', pathname = ''/bob/wiki/main''\<rparr>,
      ''https://github.com/a/b/%62lob/main/x.md'' \<mapsto>
        \<lparr>hostname = ''github.com'', pathname = ''/a/b/%62lob/main/x.md''\<rparr>]"

text \<open>The non-empty segments of a path and their decoded forms, as \<^verbatim>\<open>parseGitHubFileUrl\<close>
  computes its \<^verbatim>\<open>parts\<close>; \<open>None\<close> when a segment does not decode.\<close>

definition segments :: "string \<Rightarrow> string list" where
  "segments p = filter Boolean (split_str CHR ''/'' p)"

definition decoded_parts :: "string \<Rightarrow> string list option" where
  "decoded_parts p = those (map decodeURIComponent (segments p))"

text \<open>A host for the registry of \<open>settings_ab\<close>: both notes resolve and are readable, neither has
  a remote file yet (the read answers 404), the write of the first note is accepted and the
  write of the second is rejected with status 409.\<close>

definition host_ab :: "unit host" where
  "host_ab =
     \<lparr>getAbstractFileByPath =
        (\<lambda>p w. if p = ''A.md'' then Some (File file_a)
                else if p = ''B.md'' then Some (File file_b) else None),
      vault_read = (\<lambda>f w. Inr ''hello''),
      requestUrl =
        (\<lambda>r w. if req_method r = ''GET'' then (Inl (Thrown_object (Some 404)), w)
                else if req_url r = ''https://api.github.com/repos/bob/wiki/contents/b.md''
                then (Inl (Thrown_object (Some 409)), w)
                else (Inr (Json_sha (Some ''3f2c'')), w)),
      toISOString_now = (\<lambda>w. ''2024-05-01T10:00:00.000Z'')\<rparr>"

text \<open>A host that answers every read with \<open>got\<close> and every write with \<open>res\<close>.\<close>

definition host_const :: "thrown + response \<Rightarrow> thrown + response \<Rightarrow> unit host" where
  "host_const got res =
     \<lparr>getAbstractFileByPath =
        (\<lambda>p w. if p = ''A.md'' then Some (File file_a)
                else if p = ''B.md'' then Some (File file_b) else None),
      vault_read = (\<lambda>f w. Inr ''hello''),
      requestUrl = (\<lambda>r w. if req_method r = ''GET'' then (got, w) else (res, w)),
      toISOString_now = (\<lambda>w. ''2024-05-01T10:00:00.000Z'')\<rparr>"

lemma split_str_nonempty: "split_str d s \<noteq> []"
  by (induction s) (auto split: list.splits)

section \<open>Properties of the URL target parser\<close>

lemma those_map_Some:
  "those (map f xs) = Some ys \<Longrightarrow>
     length ys = length xs \<and> (\<forall>i<length xs. f (xs ! i) = Some (ys ! i))"
proof (induction xs arbitrary: ys)
  case Nil
  then show ?case by simp
next
  case (Cons x xs)
  then obtain y zs where y: "f x = Some y" and zs: "those (map f xs) = Some zs" and ys: "ys = y # zs"
    by (auto split: option.splits)
  from Cons.IH [OF zs] y ys show ?case
    by (auto simp: nth_Cons split: nat.splits)
qed

lemma parse_unfold:
  "new_URL url = Some u \<Longrightarrow> decoded_parts (pathname u) = Some parts \<Longrightarrow>
   parseGitHubFileUrl new_URL url =
     (if toLowerCase (hostname u) = ''github.com'' then
        (if length parts < 5 then None
         else if parts ! 2 \<noteq> ''blob'' then None
         else Some \<lparr>owner = parts ! 0, repo = parts ! 1, branch = parts ! 3,
                     filePath = join_str CHR ''/'' (drop 4 parts)\<rparr>)
      else if toLowerCase (hostname u) = ''raw.githubusercontent.com'' then
        (if length parts < 4 then None
         else Some \<lparr>owner = parts ! 0, repo = parts ! 1, branch = parts ! 2,
                     filePath = join_str CHR ''/'' (drop 3 parts)\<rparr>)
      else None)"
  by (simp add: parseGitHubFileUrl_def decoded_parts_def segments_def Let_def)

lemma parse_undecodable:
  "new_URL url = Some u \<Longrightarrow> decoded_parts (pathname u) = None \<Longrightarrow>
   parseGitHubFileUrl new_URL url = None"
  by (simp add: parseGitHubFileUrl_def decoded_parts_def segments_def Let_def)

lemma parse_invalid: "new_URL url = None \<Longrightarrow> parseGitHubFileUrl new_URL url = None"
  by (simp add: parseGitHubFileUrl_def)

lemma example_parts:
  "decoded_parts ''/alice/notes/blob/main/docs/page.md'' =
     Some [''alice'', ''notes'', ''blob'', ''main'', ''docs'', ''page.md'']"
  by code_simp

text \<open>Facts about the sample URLs.\<close>

lemma sample_page:
  "new_URL_sample ''https://github.com/alice/notes/blob/main/docs/page.md'' =
     Some \<lparr>hostname = ''github.com'', pathname = ''/alice/notes/blob/main/docs/page.md''\<rparr>"
  by code_simp

lemma sample_raw:
  "new_URL_sample ''https://raw.githubusercontent.com/bob/wiki/main/b.md'' =
     Some \<lparr>hostname = ''raw.githubusercontent.com'', pathname = ''/bob/wiki/main/b.md''\<rparr>"
  by code_simp

lemma raw_parts: "decoded_parts ''/bob/wiki/main/b.md'' = Some [''bob'', ''wiki'', ''main'', ''b.md'']"
  by code_simp

lemma lower_raw: "toLowerCase ''raw.githubusercontent.com'' = ''raw.githubusercontent.com''"
  by code_simp

lemma lower_github: "toLowerCase ''github.com'' = ''github.com''"
  by code_simp

lemma sample_rejected:
  "new_URL_sample ''not a url'' = None"
  "new_URL_sample ''https://gitlab.com/alice/notes/blob/main/docs/page.md'' =
     Some \<lparr>hostname = ''gitlab.com'', pathname = ''/alice/notes/blob/main/docs/page.md''\<rparr>"
  "new_URL_sample ''https://github.com/alice/notes/tree/main/docs'' =
     Some \<lparr>hostname = ''github.com'', pathname = ''/alice/notes/tree/main/docs''\<rparr>"
  "new_URL_sample ''https://github.com/alice/notes'' =
     Some \<lparr>hostname = ''github.com'', pathname = ''/alice/notes''\<rparr>"
  "new_URL_sample ''https://raw.githubusercontent.com/bob/wiki/main'' =
     Some \<lparr>hostname = ''raw.githubusercontent.com'', pathname = ''/bob/wiki/main''\<rparr>"
  by code_simp+

lemma sample_segments:
  "toLowerCase ''gitlab.com'' = ''gitlab.com''"
  "segments ''/alice/notes/tree/main/docs'' = [''alice'', ''notes'', ''tree'', ''main'', ''docs'']"
  "decodeURIComponent ''tree'' = Some ''tree''"
  "segments ''/alice/notes'' = [''alice'', ''notes'']"
  "segments ''/bob/wiki/main'' = [''bob'', ''wiki'', ''main'']"
  by code_simp+

lemma sample_git:
  "new_URL_sample ''git://GitHub.com/alice/notes/blob/main/docs/page.md'' =
     Some \<lparr>hostname = ''GitHub.com'', pathname = ''/alice/notes/blob/main/docs/page.md''\<rparr>"
  "toLowerCase ''GitHub.com'' = ''github.com''"
  by code_simp+

text \<open>
  Claim C4, as amended. For a URL that the constructor accepts and whose non-empty path
  segments all percent-decode: when the host is \<open>github.com\<close>, there are at least five
  segments and the decoded segment 2 is \<open>blob\<close>, the parser yields the decoded segments 0, 1
  and 3 as owner, repository and branch and the remaining decoded segments joined with
  \<open>/\<close> as the file path; when the host is \<open>raw.githubusercontent.com\<close> and there are at
  least four segments, it yields the decoded segments 0 to 2 and the remainder joined. In
  particular a URL with host \<open>github.com\<close> and path \<open>/alice/notes/blob/main/docs/page.md\<close>
  parses to alice, notes, main and \<open>docs/page.md\<close>.
\<close>

theorem parse_recognised_forms:
  assumes "new_URL url = Some u"
    and "decoded_parts (pathname u) = Some parts"
  shows "(toLowerCase (hostname u) = ''github.com'' \<and> 5 \<le> length parts \<and> parts ! 2 = ''blob'' \<longrightarrow>
            parseGitHubFileUrl new_URL url =
              Some \<lparr>owner = parts ! 0, repo = parts ! 1, branch = parts ! 3,
                     filePath = join_str CHR ''/'' (drop 4 parts)\<rparr>) \<and>
         (toLowerCase (hostname u) = ''raw.githubusercontent.com'' \<and> 4 \<le> length parts \<longrightarrow>
            parseGitHubFileUrl new_URL url =
              Some \<lparr>owner = parts ! 0, repo = parts ! 1, branch = parts ! 2,
                     filePath = join_str CHR ''/'' (drop 3 parts)\<rparr>) \<and>
         (hostname u = ''github.com'' \<and> pathname u = ''/alice/notes/blob/main/docs/page.md'' \<longrightarrow>
            parseGitHubFileUrl new_URL url =
              Some \<lparr>owner = ''alice'', repo = ''notes'', branch = ''main'',
                     filePath = ''docs/page.md''\<rparr>)"
proof -
  have lower: "toLowerCase ''github.com'' = ''github.com''"
    by code_simp
  have 3: "parseGitHubFileUrl new_URL url =
              Some \<lparr>owner = ''alice'', repo = ''notes'', branch = ''main'',
                     filePath = ''docs/page.md''\<rparr>"
    if h: "hostname u = ''github.com''" and p: "pathname u = ''/alice/notes/blob/main/docs/page.md''"
  proof -
    have parts: "parts = [''alice'', ''notes'', ''blob'', ''main'', ''docs'', ''page.md'']"
      using assms(2) by (simp add: p example_parts)
    show ?thesis
      using parse_unfold [of new_URL url u parts, OF assms] by (simp add: parts h lower)
  qed
  show ?thesis
    using 3 parse_unfold [of new_URL url u parts, OF assms] by simp
qed

theorem parse_recognised_forms_witness:
  "parseGitHubFileUrl new_URL_sample ''https://github.com/alice/notes/blob/main/docs/page.md'' =
     Some \<lparr>owner = ''alice'', repo = ''notes'', branch = ''main'', filePath = ''docs/page.md''\<rparr> \<and>
   parseGitHubFileUrl new_URL_sample ''https://raw.githubusercontent.com/bob/wiki/main/b.md'' =
     Some \<lparr>owner = ''bob'', repo = ''wiki'', branch = ''main'', filePath = ''b.md''\<rparr>"
proof -
  have p: "decoded_parts (pathname \<lparr>hostname = ''github.com'',
              pathname = ''/alice/notes/blob/main/docs/page.md''\<rparr>) =
             Some [''alice'', ''notes'', ''blob'', ''main'', ''docs'', ''page.md'']"
    by (simp add: example_parts)
  have r: "decoded_parts (pathname \<lparr>hostname = ''raw.githubusercontent.com'',
              pathname = ''/bob/wiki/main/b.md''\<rparr>) = Some [''bob'', ''wiki'', ''main'', ''b.md'']"
    by (simp add: raw_parts)
  show ?thesis
    using parse_recognised_forms [of new_URL_sample _ _ _, OF sample_page p]
      parse_recognised_forms [of new_URL_sample _ _ _, OF sample_raw r]
    by (simp add: lower_raw lower_github)
qed

text \<open>
  The claim without the condition on decoding fails: \<open>%FF\<close> is a well-formed escape but
  no UTF-8, so \<open>decodeURIComponent\<close> throws and the parser answers \<^verbatim>\<open>null\<close> for a
  \<open>github.com\<close> URL with five segments and \<open>blob\<close> at index 2.
\<close>

theorem parse_undecodable_segment_counterexample:
  "new_URL_sample ''https://github.com/a/b/blob/main/%FF.md'' =
     Some \<lparr>hostname = ''github.com'', pathname = ''/a/b/blob/main/%FF.md''\<rparr> \<and>
   segments ''/a/b/blob/main/%FF.md'' =
     [''a'', ''b'', ''blob'', ''main'', ''%FF.md''] \<and>
   parseGitHubFileUrl new_URL_sample ''https://github.com/a/b/blob/main/%FF.md'' = None"
  by code_simp

text \<open>
  Claim C5, as amended. The parser answers \<^verbatim>\<open>null\<close> for a string the URL constructor
  rejects, for a host that is neither \<open>github.com\<close> nor \<open>raw.githubusercontent.com\<close>, for a
  \<open>github.com\<close> URL with fewer than five non-empty segments or whose segment 2 does not
  percent-decode to \<open>blob\<close>, and for a \<open>raw.githubusercontent.com\<close> URL with fewer than four
  segments.
\<close>

theorem parse_rejects:
  "(new_URL url = None \<longrightarrow> parseGitHubFileUrl new_URL url = None) \<and>
   (new_URL url = Some u \<and> toLowerCase (hostname u) \<noteq> ''github.com'' \<and>
    toLowerCase (hostname u) \<noteq> ''raw.githubusercontent.com'' \<longrightarrow>
      parseGitHubFileUrl new_URL url = None) \<and>
   (new_URL url = Some u \<and> toLowerCase (hostname u) = ''github.com'' \<and>
    (length (segments (pathname u)) < 5 \<or>
     decodeURIComponent (segments (pathname u) ! 2) \<noteq> Some ''blob'') \<longrightarrow>
      parseGitHubFileUrl new_URL url = None) \<and>
   (new_URL url = Some u \<and> toLowerCase (hostname u) = ''raw.githubusercontent.com'' \<and>
    length (segments (pathname u)) < 4 \<longrightarrow>
      parseGitHubFileUrl new_URL url = None)"
proof (cases "new_URL url")
  case None
  then show ?thesis by (simp add: parse_invalid)
next
  case (Some v)
  show ?thesis
  proof (cases "decoded_parts (pathname v)")
    case None
    with Some have "parseGitHubFileUrl new_URL url = None"
      by (rule parse_undecodable)
    then show ?thesis by simp
  next
    case (Some parts)
    have len: "length parts = length (segments (pathname v))"
      and nth: "\<forall>i<length (segments (pathname v)).
                  decodeURIComponent (segments (pathname v) ! i) = Some (parts ! i)"
      using those_map_Some [of decodeURIComponent "segments (pathname v)" parts] Some
      by (simp_all add: decoded_parts_def)
    have blob: "decodeURIComponent (segments (pathname v) ! 2) = Some (parts ! 2)"
      if "\<not> length (segments (pathname v)) < 5"
      using that nth by auto
    show ?thesis
      using \<open>new_URL url = Some v\<close> parse_unfold [of new_URL url v parts] Some len blob
      by auto
  qed
qed

theorem parse_rejects_witness:
  "parseGitHubFileUrl new_URL_sample ''not a url'' = None \<and>
   parseGitHubFileUrl new_URL_sample ''https://gitlab.com/alice/notes/blob/main/docs/page.md'' = None \<and>
   parseGitHubFileUrl new_URL_sample ''https://github.com/alice/notes/tree/main/docs'' = None \<and>
   parseGitHubFileUrl new_URL_sample ''https://github.com/alice/notes'' = None \<and>
   parseGitHubFileUrl new_URL_sample ''https://raw.githubusercontent.com/bob/wiki/main'' = None"
  using
    parse_rejects [of new_URL_sample "''not a url''"
      "\<lparr>hostname = ''github.com'', pathname = ''/alice/notes''\<rparr>"]
    parse_rejects [of new_URL_sample "''https://gitlab.com/alice/notes/blob/main/docs/page.md''"
      "\<lparr>hostname = ''gitlab.com'', pathname = ''/alice/notes/blob/main/docs/page.md''\<rparr>"]
    parse_rejects [of new_URL_sample "''https://github.com/alice/notes/tree/main/docs''"
      "\<lparr>hostname = ''github.com'', pathname = ''/alice/notes/tree/main/docs''\<rparr>"]
    parse_rejects [of new_URL_sample "''https://github.com/alice/notes''"
      "\<lparr>hostname = ''github.com'', pathname = ''/alice/notes''\<rparr>"]
    parse_rejects [of new_URL_sample "''https://raw.githubusercontent.com/bob/wiki/main''"
      "\<lparr>hostname = ''raw.githubusercontent.com'', pathname = ''/bob/wiki/main''\<rparr>"]
  by (simp add: sample_rejected sample_segments lower_github lower_raw)

text \<open>
  With the segment read as it stands in the path the claim fails: the segment \<open>%62lob\<close> is
  not \<open>blob\<close>, but it decodes to \<open>blob\<close> before the comparison, and the URL is accepted.
\<close>

theorem parse_encoded_blob_counterexample:
  "new_URL_sample ''https://github.com/a/b/%62lob/main/x.md'' =
     Some \<lparr>hostname = ''github.com'', pathname = ''/a/b/%62lob/main/x.md''\<rparr> \<and>
   segments ''/a/b/%62lob/main/x.md'' = [''a'', ''b'', ''%62lob'', ''main'', ''x.md''] \<and>
   parseGitHubFileUrl new_URL_sample ''https://github.com/a/b/%62lob/main/x.md'' =
     Some \<lparr>owner = ''a'', repo = ''b'', branch = ''main'', filePath = ''x.md''\<rparr>"
  by code_simp

text \<open>
  Claim C10. Two URLs parse alike when the constructor rejects both, or accepts both with
  the same path and with host names that are equal up to letter case: the host name is
  compared in lower case, so \<open>GitHub.com\<close> is accepted as \<open>github.com\<close> is.
\<close>

theorem parse_host_case_insensitive:
  "(new_URL url = None \<and> new_URL url' = None \<longrightarrow>
      parseGitHubFileUrl new_URL url = parseGitHubFileUrl new_URL url') \<and>
   (new_URL url = Some u \<and> new_URL url' = Some u' \<and>
    toLowerCase (hostname u) = toLowerCase (hostname u') \<and> pathname u = pathname u' \<longrightarrow>
      parseGitHubFileUrl new_URL url = parseGitHubFileUrl new_URL url')"
  by (simp add: parseGitHubFileUrl_def)

theorem parse_host_case_insensitive_witness:
  "parseGitHubFileUrl new_URL_sample ''git://GitHub.com/alice/notes/blob/main/docs/page.md'' =
     parseGitHubFileUrl new_URL_sample ''https://github.com/alice/notes/blob/main/docs/page.md'' \<and>
   parseGitHubFileUrl new_URL_sample ''https://github.com/alice/notes/blob/main/docs/page.md'' =
     Some \<lparr>owner = ''alice'', repo = ''notes'', branch = ''main'', filePath = ''docs/page.md''\<rparr> \<and>
   parseGitHubFileUrl new_URL_sample ''//GitHub.com/alice/notes'' =
     parseGitHubFileUrl new_URL_sample ''//github.com/alice/notes''"
proof -
  have page: "parseGitHubFileUrl new_URL_sample ''https://github.com/alice/notes/blob/main/docs/page.md'' =
     Some \<lparr>owner = ''alice'', repo = ''notes'', branch = ''main'', filePath = ''docs/page.md''\<rparr>"
    using parse_unfold [of new_URL_sample _ _ _, OF sample_page]
    by (simp add: example_parts lower_github)
  have none: "new_URL_sample ''//GitHub.com/alice/notes'' = None"
    "new_URL_sample ''//github.com/alice/notes'' = None"
    by code_simp+
  show ?thesis
    using
      parse_host_case_insensitive [of new_URL_sample
        "''git://GitHub.com/alice/notes/blob/main/docs/page.md''"
        "''https://github.com/alice/notes/blob/main/docs/page.md''"
        "\<lparr>hostname = ''GitHub.com'', pathname = ''/alice/notes/blob/main/docs/page.md''\<rparr>"
        "\<lparr>hostname = ''github.com'', pathname = ''/alice/notes/blob/main/docs/page.md''\<rparr>"]
      parse_host_case_insensitive [of new_URL_sample "''//GitHub.com/alice/notes''"
        "''//github.com/alice/notes''"
        "\<lparr>hostname = ''GitHub.com'', pathname = ''/alice/notes''\<rparr>"
        "\<lparr>hostname = ''github.com'', pathname = ''/alice/notes''\<rparr>"]
    by (simp add: sample_git sample_page none lower_github page)
qed

section \<open>Properties of the target registry\<close>

lemma settings_set_noteTargets: "noteTargets (settings (set_noteTargets r p)) = r"
  by (simp add: set_noteTargets_def)

lemma settings_saveSettings: "settings (saveSettings p) = settings p"
  by (simp add: saveSettings_def)

text \<open>A rename whose old path is an own property holding a target moves that target, unless
  the new path is \<^verbatim>\<open>__proto__\<close> and no own property.\<close>

lemma rename_own_entry:
  assumes "map_of (noteTargets (settings p)) oldPath = Some t"
    and "path f \<noteq> ''__proto__'' \<or>
         (oldPath \<noteq> path f \<and> map_of (noteTargets (settings p)) (path f) \<noteq> None)"
  shows "noteTargets (settings (on_rename (File f) oldPath p)) =
           AList.update (path f) t (AList.delete oldPath (noteTargets (settings p)))"
  using assms
  by (auto simp: on_rename_def noteTargets_get_def noteTargets_set_def noteTargets_delete_def
      settings_saveSettings settings_set_noteTargets delete_conv')

text \<open>What holds of the rename handler in general: an own target at the old path moves to a
  new path other than \<^verbatim>\<open>__proto__\<close>, every other entry staying as it was; and when the read
  of the old path finds nothing, own or inherited, nothing changes.\<close>

lemma rename_moves_own_entry:
  "(map_of (noteTargets (settings p)) oldId = Some t \<and> path f \<noteq> ''__proto__'' \<longrightarrow>
      map_of (noteTargets (settings (on_rename (File f) oldId p))) =
        ((map_of (noteTargets (settings p)))(oldId := None))(path f \<mapsto> t)) \<and>
   (noteTargets_get p oldId = None \<longrightarrow> on_rename (File f) oldId p = p)"
proof (intro conjI impI)
  assume "map_of (noteTargets (settings p)) oldId = Some t \<and> path f \<noteq> ''__proto__''"
  then have "noteTargets (settings (on_rename (File f) oldId p)) =
               AList.update (path f) t (AList.delete oldId (noteTargets (settings p)))"
    by (intro rename_own_entry) auto
  then show "map_of (noteTargets (settings (on_rename (File f) oldId p))) =
               ((map_of (noteTargets (settings p)))(oldId := None))(path f \<mapsto> t)"
    by (simp add: update_conv' delete_conv')
next
  assume "noteTargets_get p oldId = None"
  then show "on_rename (File f) oldId p = p"
    by (simp add: on_rename_def)
qed

lemma rename_of_folder: "on_rename (Folder d) oldId p = p"
  by (simp add: on_rename_def)

text \<open>
  Claim C7, at the registry of \<open>plugin_ab\<close>: a vault file named \<open>constructor\<close>, which has no
  entry, is renamed to \<open>C.md\<close>. The read \<^verbatim>\<open>noteTargets['constructor']\<close> finds the inherited
  member of \<^verbatim>\<open>Object.prototype\<close>, so the handler stores that member at \<open>C.md\<close> and saves the
  settings: the registry is not left unchanged.
\<close>

theorem rename_from_inherited_key_adds_entry:
  "map_of (noteTargets (settings plugin_ab)) ''constructor'' = None \<and>
   others plugin_ab = [] \<and>
   noteTargets_get plugin_ab ''C.md'' = None \<and>
   noteTargets_get (on_rename (File file_c) ''constructor'' plugin_ab) ''C.md'' =
     Some (Member ''constructor'') \<and>
   on_rename (File file_c) ''constructor'' plugin_ab =
     plugin_ab\<lparr>others := [(''C.md'', ''constructor'')], saved := Some settings_ab\<rparr>"
  by (simp add: on_rename_def noteTargets_get_def noteTargets_set_def noteTargets_delete_def
      set_noteTargets_def saveSettings_def Object_prototype_members_def plugin_ab_def
      settings_ab_def file_c_def)

text \<open>A rename of \<open>A.md\<close> to a file named \<^verbatim>\<open>__proto__\<close> removes the entry of \<open>A.md\<close> and
  inserts none: the target becomes the prototype of the registry object.\<close>

lemma rename_to_proto_adds_no_key:
  "noteTargets (settings (on_rename (File file_proto) ''A.md'' plugin_ab)) = [(''B.md'', target_b)] \<and>
   others (on_rename (File file_proto) ''A.md'' plugin_ab) = [] \<and>
   replaced_prototype (on_rename (File file_proto) ''A.md'' plugin_ab) = Some (Target target_a)"
  by (simp add: on_rename_def noteTargets_get_def noteTargets_set_def noteTargets_delete_def
      set_noteTargets_def saveSettings_def plugin_ab_def settings_ab_def file_proto_def
      AList.delete_eq)

text \<open>
  Claim C8. After \<open>setNoteTarget\<close> with a target \<open>t\<close> for the note \<open>f\<close>, the registry maps the
  path of \<open>f\<close> to \<open>t\<close> (whatever it held there before) and is unchanged at every other key.
\<close>

theorem setTarget_allTargets:
  "map_of (noteTargets (settings (setNoteTarget f (Some t) p))) =
     (map_of (noteTargets (settings p)))(path f \<mapsto> t)"
  by (simp add: setNoteTarget_def settings_saveSettings settings_set_noteTargets update_conv')

text \<open>
  Claim C9. When both the old and the new path have entries, the rename handler makes the
  new path hold the old path's target (its previous target \<open>t'\<close> is gone), removes the old
  path's entry, and the keys stay unique. (The event whose old and new path are both
  \<^verbatim>\<open>__proto__\<close>, which is no rename, is set aside: there the \<^verbatim>\<open>delete\<close> removes the own
  property and the assignment reaches the inherited setter.)
\<close>

theorem rename_onto_existing:
  assumes "map_of (noteTargets (settings p)) oldPath = Some t"
    and "map_of (noteTargets (settings p)) (path f) = Some t'"
    and "distinct (map fst (noteTargets (settings p)))"
    and "oldPath \<noteq> path f \<or> path f \<noteq> ''__proto__''"
  shows "map_of (noteTargets (settings (on_rename (File f) oldPath p))) (path f) = Some t \<and>
         (oldPath \<noteq> path f \<longrightarrow>
            map_of (noteTargets (settings (on_rename (File f) oldPath p))) oldPath = None) \<and>
         dom (map_of (noteTargets (settings (on_rename (File f) oldPath p)))) =
           insert (path f) (dom (map_of (noteTargets (settings p))) - {oldPath}) \<and>
         distinct (map fst (noteTargets (settings (on_rename (File f) oldPath p))))"
proof -
  let ?r = "noteTargets (settings p)"
  have r': "noteTargets (settings (on_rename (File f) oldPath p)) =
              AList.update (path f) t (AList.delete oldPath ?r)"
    using assms(1,2,4) by (intro rename_own_entry) auto
  have d: "distinct (map fst (AList.update (path f) t (AList.delete oldPath ?r)))"
    using assms(3) by (intro distinct_update distinct_delete)
  show ?thesis
    unfolding r' using d by (auto simp: update_conv' delete_conv')
qed

theorem rename_onto_existing_witness:
  "map_of (noteTargets (settings plugin_ab)) ''A.md'' = Some target_a \<and>
   map_of (noteTargets (settings plugin_ab)) (path file_b) = Some target_b \<and>
   distinct (map fst (noteTargets (settings plugin_ab))) \<and>
   noteTargets (settings (on_rename (File file_b) ''A.md'' plugin_ab)) = [(''B.md'', target_a)] \<and>
   map_of (noteTargets (settings (on_rename (File file_b) ''A.md'' plugin_ab))) (path file_b) =
     Some target_a \<and>
   map_of (noteTargets (settings (on_rename (File file_b) ''A.md'' plugin_ab))) ''A.md'' = None \<and>
   distinct (map fst (noteTargets (settings (on_rename (File file_b) ''A.md'' plugin_ab))))"
proof -
  have 1: "map_of (noteTargets (settings plugin_ab)) ''A.md'' = Some target_a"
    by (simp add: plugin_ab_def settings_ab_def)
  have 2: "map_of (noteTargets (settings plugin_ab)) (path file_b) = Some target_b"
    by (simp add: plugin_ab_def settings_ab_def file_b_def)
  have 3: "distinct (map fst (noteTargets (settings plugin_ab)))"
    by (simp add: plugin_ab_def settings_ab_def)
  have 4: "''A.md'' \<noteq> path file_b \<or> path file_b \<noteq> ''__proto__''"
    by (simp add: file_b_def)
  have 5: "noteTargets (settings (on_rename (File file_b) ''A.md'' plugin_ab)) = [(''B.md'', target_a)]"
    by (simp add: on_rename_def noteTargets_get_def noteTargets_set_def noteTargets_delete_def
          plugin_ab_def settings_ab_def file_b_def saveSettings_def set_noteTargets_def
          AList.delete_eq)
  show ?thesis
    using 1 2 3 5 rename_onto_existing [OF 1 2 3 4] by (simp add: file_b_def)
qed

section \<open>Properties of the sync engine\<close>

lemma trim_Nil: "trim [] = []"
  by (simp add: trim_def)


lemma sync_written:
  assumes "map_of (noteTargets st) (path file) = Some target"
    and "trim (githubToken st) \<noteq> []"
    and "vault_read h file w = Inr content"
    and "requestUrl h (get_request st target) w = (got, w1)"
    and "existing_sha got = Inr existingSha"
  shows "requests (fst (snd (syncNoteWithGitHub h st file w))) =
           [get_request st target,
            put_request st target file (base64 content) (toISOString_now h w1) existingSha]"
proof -
  have "githubToken st \<noteq> []"
    using assms(2) trim_Nil by auto
  then show ?thesis
    using assms
    by (simp add: syncNoteWithGitHub_def Let_def requests_def
          split: prod.splits sum.splits del: base64.simps)
qed

lemma existing_sha_throw:
  "existing_sha (Inl e) = (if e = Thrown_object (Some 404) then Inr None else Inl e)"
  by (cases e) (auto simp: existing_sha_def)

lemma existing_sha_found: "existing_sha (Inr (Json_sha s)) = Inr s"
  by (simp add: existing_sha_def)

lemma put_request_method: "req_method (put_request st target file c now s) = ''PUT''"
  by (simp add: put_request_def)





lemma put_request_sha: "body_field (put_request st target file c now s) ''sha'' = s"
  by (cases s) (simp_all add: body_field_def put_request_def sync_body_def JSON_stringify_def
      List.map_filter_simps)

text \<open>Facts about the sample data.\<close>

lemma trim_token_ab: "trim (githubToken settings_ab) = ''ghp_x''"
  by code_simp


lemma target_of_file_a: "map_of (noteTargets settings_ab) (path file_a) = Some target_a"
  by (simp add: settings_ab_def file_a_def)

lemma host_const_simps:
  "vault_read (host_const got res) file_a () = Inr ''hello''"
  "requestUrl (host_const got res) (get_request st target) () = (got, ())"
  "toISOString_now (host_const got res) () = ''2024-05-01T10:00:00.000Z''"
  by (simp_all add: host_const_def get_request_def)



text \<open>
  Claim C2. In a sync that reaches the write (the note has a target, the token is set, the
  note is read): when the read of the remote file was answered with status 404, the body of
  the PUT request has no \<open>sha\<close> member; when the read found the file with the revision
  marker \<open>r\<close>, the body of the PUT request has \<open>sha = r\<close>.
\<close>

theorem write_sha_follows_read:
  assumes "map_of (noteTargets st) (path file) = Some target"
    and "trim (githubToken st) \<noteq> []"
    and "vault_read h file w = Inr content"
    and "requestUrl h (get_request st target) w = (got, w1)"
  shows "(got = Inl (Thrown_object (Some 404)) \<longrightarrow>
            (let put = put_request st target file (base64 content) (toISOString_now h w1) None in
             requests (fst (snd (syncNoteWithGitHub h st file w))) = [get_request st target, put] \<and>
             req_method put = ''PUT'' \<and> body_field put ''sha'' = None)) \<and>
         (got = Inr (Json_sha (Some r)) \<longrightarrow>
            (let put = put_request st target file (base64 content) (toISOString_now h w1) (Some r) in
             requests (fst (snd (syncNoteWithGitHub h st file w))) = [get_request st target, put] \<and>
             req_method put = ''PUT'' \<and> body_field put ''sha'' = Some r))"
  using sync_written [OF assms, of None] sync_written [OF assms, of "Some r"]
  by (simp add: Let_def existing_sha_throw existing_sha_found put_request_method put_request_sha
        del: base64.simps)

theorem write_sha_follows_read_witness:
  "requests (fst (snd (syncNoteWithGitHub
       (host_const (Inl (Thrown_object (Some 404))) (Inr (Json_sha (Some ''9a1b''))))
       settings_ab file_a ()))) =
     [get_request settings_ab target_a,
      put_request settings_ab target_a file_a (base64 ''hello'') ''2024-05-01T10:00:00.000Z'' None] \<and>
   body_field
     (put_request settings_ab target_a file_a (base64 ''hello'') ''2024-05-01T10:00:00.000Z'' None)
     ''sha'' = None \<and>
   requests (fst (snd (syncNoteWithGitHub
       (host_const (Inr (Json_sha (Some ''3f2c''))) (Inr (Json_sha (Some ''9a1b''))))
       settings_ab file_a ()))) =
     [get_request settings_ab target_a,
      put_request settings_ab target_a file_a (base64 ''hello'') ''2024-05-01T10:00:00.000Z''
        (Some ''3f2c'')] \<and>
   body_field
     (put_request settings_ab target_a file_a (base64 ''hello'') ''2024-05-01T10:00:00.000Z''
        (Some ''3f2c''))
     ''sha'' = Some ''3f2c''"
proof -
  have k: "trim (githubToken settings_ab) \<noteq> []"
    by (simp add: trim_token_ab)
  show ?thesis
    using
      write_sha_follows_read [OF target_of_file_a k host_const_simps(1) host_const_simps(2),
        of "Inl (Thrown_object (Some 404))" "Inr (Json_sha (Some ''9a1b''))" "''3f2c''"]
      write_sha_follows_read [OF target_of_file_a k host_const_simps(1) host_const_simps(2),
        of "Inr (Json_sha (Some ''3f2c''))" "Inr (Json_sha (Some ''9a1b''))" "''3f2c''"]
    by (simp add: Let_def host_const_simps(3) del: base64.simps)
qed



subsection \<open>The batch\<close>

text \<open>The promise of \<open>syncNoteWithGitHub\<close> rejects only when the read of the note throws:
  every other failure is caught inside and the call returns as a success does.\<close>

lemma sync_rejects_only_on_read:
  "fst (syncNoteWithGitHub h st file w) = Inl e \<Longrightarrow> vault_read h file w = Inl e"
  by (auto simp: syncNoteWithGitHub_def Let_def
      split: option.splits if_splits sum.splits prod.splits simp del: base64.simps)

text \<open>Every key of the registry is counted once, as a success or as a failure: nothing
  aborts the loop.\<close>

lemma sync_each_counts_every_key:
  "sync_each h st ks s f w = ((s', f'), evs, w') \<Longrightarrow> s' + f' = s + f + length ks"
proof (induction ks arbitrary: s f w evs w')
  case Nil
  then show ?case by simp
next
  case (Cons k ks)
  show ?case
  proof (cases "getAbstractFileByPath h k w")
    case None
    with Cons.prems have "sync_each h st ks s (Suc f) w = ((s', f'), evs, w')" by simp
    from Cons.IH [OF this] show ?thesis by simp
  next
    case (Some a)
    show ?thesis
    proof (cases a)
      case (Folder d)
      with Some Cons.prems have "sync_each h st ks s (Suc f) w = ((s', f'), evs, w')" by simp
      from Cons.IH [OF this] show ?thesis by simp
    next
      case (File tf)
      obtain r es w1 where run: "syncNoteWithGitHub h st tf w = (r, es, w1)"
        by (cases "syncNoteWithGitHub h st tf w") auto
      show ?thesis
      proof (cases r)
        case (Inl e)
        obtain c es' w2 where rest: "sync_each h st ks s (Suc f) w1 = (c, es', w2)"
          by (cases "sync_each h st ks s (Suc f) w1") auto
        with Some File run Inl Cons.prems have "c = (s', f')" by simp
        with rest Cons.IH show ?thesis by fastforce
      next
        case (Inr u)
        obtain c es' w2 where rest: "sync_each h st ks (Suc s) f w1 = (c, es', w2)"
          by (cases "sync_each h st ks (Suc s) f w1") auto
        with Some File run Inr Cons.prems have "c = (s', f')" by simp
        with rest Cons.IH show ?thesis by fastforce
      qed
    qed
  qed
qed

text \<open>A key that resolves to no file (or to a folder) is a failure, without any event.\<close>

lemma unresolved_note_is_failure_without_request:
  assumes "getAbstractFileByPath h k w = None \<or> (\<exists>d. getAbstractFileByPath h k w = Some (Folder d))"
  shows "sync_each h st [k] s f w = ((s, Suc f), [], w)"
  using assms by auto

text \<open>The run of the batch over \<open>settings_ab\<close> on \<open>host_ab\<close>, step by step.\<close>

lemma apiUrl_a: "sync_apiUrl target_a = ''https://api.github.com/repos/alice/notes/contents/docs/page.md''"
  by code_simp

lemma apiUrl_b: "sync_apiUrl target_b = ''https://api.github.com/repos/bob/wiki/contents/b.md''"
  by code_simp

lemma decimal_0: "decimal 0 = ''0''"
  by code_simp

lemma decimal_2: "decimal 2 = ''2''"
  by code_simp

lemma sync_a:
  "syncNoteWithGitHub host_ab settings_ab file_a () =
     (Inr (),
      [Http (get_request settings_ab target_a) (Inl (Thrown_object (Some 404))),
       Http (put_request settings_ab target_a file_a (base64 ''hello'') ''2024-05-01T10:00:00.000Z'' None)
         (Inr (Json_sha (Some ''3f2c''))),
       Notice (''Synced '' @ [CHR 0x22] @ ''A'' @ [CHR 0x22] @ '' to GitHub'') None], ())"
proof -
  have t: "map_of (noteTargets settings_ab) (path file_a) = Some target_a"
    by (simp add: settings_ab_def file_a_def)
  have k: "githubToken settings_ab \<noteq> []"
    by (simp add: settings_ab_def)
  have g: "requestUrl host_ab (get_request settings_ab target_a) () = (Inl (Thrown_object (Some 404)), ())"
    by (simp add: host_ab_def get_request_def)
  have p: "requestUrl host_ab (put_request settings_ab target_a file_a (base64 ''hello'') ''2024-05-01T10:00:00.000Z'' None) ()
             = (Inr (Json_sha (Some ''3f2c'')), ())"
    by (simp add: host_ab_def put_request_def apiUrl_a del: base64.simps)
  have r: "vault_read host_ab file_a () = Inr ''hello''" "toISOString_now host_ab () = ''2024-05-01T10:00:00.000Z''"
    by (simp_all add: host_ab_def)
  have b: "basename file_a = ''A''" by (simp add: file_a_def)
  show ?thesis
    by (simp add: syncNoteWithGitHub_def t k trim_token_ab g p r b existing_sha_def Let_def del: base64.simps)
qed


lemma sync_b:
  "syncNoteWithGitHub host_ab settings_ab file_b () =
     (Inr (),
      [Http (get_request settings_ab target_b) (Inl (Thrown_object (Some 404))),
       Http (put_request settings_ab target_b file_b (base64 ''hello'') ''2024-05-01T10:00:00.000Z'' None)
         (Inl (Thrown_object (Some 409))),
       Notice ''Failed to sync note to GitHub. See console for details.'' (Some 8000),
       Console_error ''GitHub sync failed'' (Thrown_object (Some 409))], ())"
proof -
  have t: "map_of (noteTargets settings_ab) (path file_b) = Some target_b"
    by (simp add: settings_ab_def file_b_def)
  have k: "githubToken settings_ab \<noteq> []"
    by (simp add: settings_ab_def)
  have g: "requestUrl host_ab (get_request settings_ab target_b) () = (Inl (Thrown_object (Some 404)), ())"
    by (simp add: host_ab_def get_request_def)
  have p: "requestUrl host_ab (put_request settings_ab target_b file_b (base64 ''hello'') ''2024-05-01T10:00:00.000Z'' None) ()
             = (Inl (Thrown_object (Some 409)), ())"
    by (simp add: host_ab_def put_request_def apiUrl_b del: base64.simps)
  have r: "vault_read host_ab file_b () = Inr ''hello''" "toISOString_now host_ab () = ''2024-05-01T10:00:00.000Z''"
    by (simp_all add: host_ab_def)
  show ?thesis
    by (simp add: syncNoteWithGitHub_def t k trim_token_ab g p r existing_sha_def Let_def del: base64.simps)
qed

lemma resolve_ab:
  "getAbstractFileByPath host_ab ''A.md'' () = Some (File file_a)"
  "getAbstractFileByPath host_ab ''B.md'' () = Some (File file_b)"
  by (simp_all add: host_ab_def)

text \<open>
  Claim C1, at the registry of \<open>settings_ab\<close> on \<open>host_ab\<close>: both notes are attempted, the
  write of the second note is rejected and its failure is shown, and the summary of the
  batch still reports 2 succeeded and 0 failed.
\<close>

theorem batch_counts_rejected_write_as_success:
  "notices (fst (SyncAllTargetedNotes host_ab settings_ab ())) =
     [''Syncing 2 targeted file(s) to GitHub'',
      ''Synced '' @ [CHR 0x22] @ ''A'' @ [CHR 0x22] @ '' to GitHub'',
      ''Failed to sync note to GitHub. See console for details.'',
      ''GitHub Sync complete: 2 succeeded, 0 failed'']"
proof -
  have keys: "map fst (noteTargets settings_ab) = [''A.md'', ''B.md'']"
    by (simp add: settings_ab_def)
  have loop: "sync_each host_ab settings_ab [''A.md'', ''B.md''] 0 0 () =
                ((2, 0), fst (snd (syncNoteWithGitHub host_ab settings_ab file_a ())) @
                         fst (snd (syncNoteWithGitHub host_ab settings_ab file_b ())), ())"
    by (simp add: resolve_ab sync_a sync_b numeral_2_eq_2)
  have len: "length [''A.md'', ''B.md''] = 2"
    by simp
  have d2: "decimal (length [''A.md'', ''B.md'']) = ''2''"
    unfolding len by (rule decimal_2)
  have run: "fst (SyncAllTargetedNotes host_ab settings_ab ()) =
               Notice (''Syncing '' @ ''2'' @ '' targeted file(s) to GitHub'') None #
               (fst (snd (syncNoteWithGitHub host_ab settings_ab file_a ())) @
                fst (snd (syncNoteWithGitHub host_ab settings_ab file_b ()))) @
               [Notice (''GitHub Sync complete: '' @ ''2'' @ '' succeeded, '' @ ''0'' @ '' failed'') None]"
    unfolding SyncAllTargetedNotes_def keys Let_def loop d2
    by (simp add: decimal_0 decimal_2 del: decimal.simps)
  show ?thesis
    unfolding run sync_a sync_b
    by (simp add: notices_def)
qed

end
